theory Spec2Isabelle
  imports Complex_Main
begin

section \<open>Environment: clock and random draws\<close>

text \<open>
  The code reads two things from outside: the clock (\<open>timezone.now()\<close>) and the random
  digits of the identifier generators (\<open>random.choices(string.digits, k=...)\<close>), plus the
  draw of the payment simulation (\<open>random.random()\<close>). They are inputs of the model.
  A datetime is an integer count of microseconds on one time line (the resolution of
  Python's \<open>datetime\<close>); the clock is read once per call of the model.
  \<open>stored_booking_ids\<close> are the booking identifiers of the rows already in the
  database, which the unique constraint of \<open>booking_id\<close> checks a new row against.
\<close>

record env =
  now :: int
  travel_digits :: string
  booking_digits :: string
  payment_draw :: rat
  stored_booking_ids :: "string list"

text \<open>The exceptions the modelled code can end in.\<close>

datatype error = TypeError | AttributeError | ValueError | InvalidOperation | IntegrityError

definition hours :: "int \<Rightarrow> int" where
  "hours h = h * 3600000000"

definition date_of :: "int \<Rightarrow> int" where
  "date_of t = t div 86400000000"


section \<open>travel/models.py: TravelOption\<close>

text \<open>
  The fields the modelled operations read or write; the descriptive columns
  (operator, codes, amenities, policy text, flags, row timestamps) are left out.
  \<open>departure_datetime\<close> is the instant of departure; \<open>departure_utcoffset\<close> is the UTC
  offset its datetime object carries (0 for a value loaded from the database), which
  \<open>.date()\<close> uses.
\<close>

record TravelOption =
  travel_id :: string
  travel_type :: string
  source :: string
  destination :: string
  departure_datetime :: int
  departure_utcoffset :: int
  arrival_datetime :: int
  duration :: int
  base_price :: rat
  available_seats :: int
  total_seats :: int

text \<open>\<open>prefix_map.get(self.travel_type, 'XX')\<close> followed by six random digits.\<close>

definition generate_travel_id :: "env \<Rightarrow> TravelOption \<Rightarrow> string" where
  "generate_travel_id e t =
     (if travel_type t = ''FLIGHT'' then ''FL''
      else if travel_type t = ''TRAIN'' then ''TR''
      else if travel_type t = ''BUS'' then ''BU''
      else ''XX'') @ travel_digits e"

text \<open>
  \<open>TravelOption.save\<close>: both datetime fields are non-null columns and a datetime object is
  always truthy, so the duration is recomputed on every save; the identifier is generated
  only when it is empty.
\<close>

definition TravelOption_save :: "env \<Rightarrow> TravelOption \<Rightarrow> TravelOption" where
  "TravelOption_save e t =
     (let t1 = t\<lparr>duration := arrival_datetime t - departure_datetime t\<rparr>
      in if travel_id t1 = [] then t1\<lparr>travel_id := generate_travel_id e t1\<rparr> else t1)"

definition TravelOption_can_be_cancelled :: "env \<Rightarrow> TravelOption \<Rightarrow> bool" where
  "TravelOption_can_be_cancelled e t =
     (let cancellation_deadline = departure_datetime t - hours 24
      in now e < cancellation_deadline)"

text \<open>
  The two seat mutators return the flag and the updated object. \<open>save\<close> writes
  \<open>available_seats\<close> to a \<open>PositiveIntegerField\<close> column; a value outside the range of
  that column makes \<open>save\<close> raise instead of returning, which the two definitions do not
  represent. A count \<open>n \<ge> 0\<close> on an option with \<open>available_seats \<ge> 0\<close> never writes such a
  value: \<open>reduce\<close> writes a value between 0 and the old one, \<open>increase\<close> one between the
  old one and \<open>total_seats\<close>.
\<close>

definition reduce_available_seats :: "env \<Rightarrow> int \<Rightarrow> TravelOption \<Rightarrow> bool \<times> TravelOption" where
  "reduce_available_seats e count t =
     (if available_seats t \<ge> count
      then (True, TravelOption_save e (t\<lparr>available_seats := available_seats t - count\<rparr>))
      else (False, t))"

definition increase_available_seats :: "env \<Rightarrow> int \<Rightarrow> TravelOption \<Rightarrow> bool \<times> TravelOption" where
  "increase_available_seats e count t =
     (if available_seats t + count \<le> total_seats t
      then (True, TravelOption_save e (t\<lparr>available_seats := available_seats t + count\<rparr>))
      else (False, t))"

text \<open>
  Attribute lookup on a TravelOption instance. \<open>TravelOption_attrs\<close> lists the names the
  class body defines (fields, properties, methods); \<open>TravelOption_seat_method\<close> resolves a
  name to one of the seat methods, \<open>None\<close> standing for Python's \<open>AttributeError\<close>.
\<close>

definition TravelOption_attrs :: "string list" where
  "TravelOption_attrs =
     [''travel_id'', ''travel_type'', ''operator_name'', ''source'', ''destination'',
      ''source_code'', ''destination_code'', ''departure_datetime'', ''arrival_datetime'',
      ''duration'', ''base_price'', ''available_seats'', ''total_seats'', ''description'',
      ''amenities'', ''baggage_allowance'', ''cancellation_policy'', ''status'',
      ''is_featured'', ''created_at'', ''updated_at'', ''get_absolute_url'',
      ''is_available'', ''is_almost_full'', ''occupancy_percentage'',
      ''time_until_departure'', ''can_be_cancelled'', ''save'', ''generate_travel_id'',
      ''reduce_available_seats'', ''increase_available_seats'']"

definition TravelOption_hasattr :: "string \<Rightarrow> bool" where
  "TravelOption_hasattr name = (name \<in> set TravelOption_attrs)"

definition TravelOption_seat_method ::
    "string \<Rightarrow> (env \<Rightarrow> int \<Rightarrow> TravelOption \<Rightarrow> bool \<times> TravelOption) option" where
  "TravelOption_seat_method name =
     (if name = ''reduce_available_seats'' then Some reduce_available_seats
      else if name = ''increase_available_seats'' then Some increase_available_seats
      else None)"

text \<open>A finite sequence of seat calls, each with the environment it runs in.\<close>

datatype seat_call = Reduce int | Increase int

fun call_count :: "seat_call \<Rightarrow> int" where
  "call_count (Reduce n) = n"
| "call_count (Increase n) = n"

fun apply_call :: "env \<Rightarrow> seat_call \<Rightarrow> TravelOption \<Rightarrow> TravelOption" where
  "apply_call e (Reduce n) t = snd (reduce_available_seats e n t)"
| "apply_call e (Increase n) t = snd (increase_available_seats e n t)"

fun run_calls :: "(env \<times> seat_call) list \<Rightarrow> TravelOption \<Rightarrow> TravelOption" where
  "run_calls [] t = t"
| "run_calls ((e, c) # cs) t = run_calls cs (apply_call e c t)"

definition seats_in_range :: "TravelOption \<Rightarrow> bool" where
  "seats_in_range t = (0 \<le> available_seats t \<and> available_seats t \<le> total_seats t)"


section \<open>bookings/models.py: Booking\<close>

text \<open>
  \<open>status\<close> and \<open>payment_status\<close> are character fields; the \<open>choices\<close> lists are not
  enforced on save, so they are strings here. \<open>travel_option\<close> is the related object
  cached on the booking instance. The passenger list, the UUID reference and the row
  timestamps are not touched by any modelled operation and are left out.
\<close>

record Booking =
  booking_id :: string
  user :: string
  travel_option :: TravelOption
  number_of_seats :: int
  total_price :: rat
  status :: string
  payment_status :: string
  confirmation_date :: "int option"
  cancellation_date :: "int option"
  special_requests :: string
  contact_email :: string
  contact_phone :: string

definition BOOKING_STATUS :: "string list" where
  "BOOKING_STATUS = [''PENDING'', ''CONFIRMED'', ''CANCELLED'', ''COMPLETED'', ''REFUNDED'']"

definition PAYMENT_STATUS :: "string list" where
  "PAYMENT_STATUS = [''PENDING'', ''COMPLETED'', ''FAILED'', ''REFUNDED'']"

definition is_past_travel :: "env \<Rightarrow> Booking \<Rightarrow> bool" where
  "is_past_travel e b = (departure_datetime (travel_option b) < now e)"

definition Booking_can_be_cancelled :: "env \<Rightarrow> Booking \<Rightarrow> bool" where
  "Booking_can_be_cancelled e b =
     (if status b \<in> set [''CANCELLED'', ''COMPLETED''] then False
      else if is_past_travel e b then False
      else if TravelOption_hasattr ''can_be_cancelled''
        then TravelOption_can_be_cancelled e (travel_option b)
      else True)"

definition days_until_travel :: "env \<Rightarrow> Booking \<Rightarrow> int" where
  "days_until_travel e b =
     (if is_past_travel e b then 0
      else date_of (departure_datetime (travel_option b)
                     + departure_utcoffset (travel_option b))
           - date_of (now e))"

text \<open>
  \<open>refund_amount\<close> returns either the integer 0 or a binary floating-point product:
  \<open>Float_product p f\<close> stands for the value of \<open>float(p) * f\<close>, with \<open>p\<close> the decimal price
  and \<open>f\<close> the literal as written. The model does not evaluate the product, so nothing
  is said about its rounding. The property is given in state-passing form, the value
  and the booking after the read: its body assigns nothing.
\<close>

datatype amount = Int_amount int | Float_product rat rat

definition refund_amount :: "env \<Rightarrow> Booking \<Rightarrow> amount \<times> Booking" where
  "refund_amount e b =
     (if \<not> Booking_can_be_cancelled e b then (Int_amount 0, b)
      else let days_before = days_until_travel e b
           in if days_before \<ge> 7 then (Float_product (total_price b) (9 / 10), b)
              else if days_before \<ge> 3 then (Float_product (total_price b) (75 / 100), b)
              else if days_before \<ge> 1 then (Float_product (total_price b) (5 / 10), b)
              else (Int_amount 0, b))"

definition generate_booking_id :: "env \<Rightarrow> string" where
  "generate_booking_id e = ''TKT'' @ booking_digits e"

text \<open>
  \<open>Booking.save\<close> on a booking whose column values the database accepts: the hook of
  the model, then the write.
\<close>

definition Booking_save :: "env \<Rightarrow> Booking \<Rightarrow> Booking" where
  "Booking_save e b =
     (let b1 = (if booking_id b = [] then b\<lparr>booking_id := generate_booking_id e\<rparr> else b);
          b2 = (if status b1 = ''CONFIRMED'' \<and> confirmation_date b1 = None
                then b1\<lparr>confirmation_date := Some (now e)\<rparr> else b1);
          b3 = (if status b2 = ''CANCELLED'' \<and> cancellation_date b2 = None
                then b2\<lparr>cancellation_date := Some (now e)\<rparr> else b2)
      in b3)"

definition confirm_booking :: "env \<Rightarrow> Booking \<Rightarrow> bool \<times> Booking" where
  "confirm_booking e b =
     (if status b = ''PENDING''
      then (True, Booking_save e
              (b\<lparr>status := ''CONFIRMED'', confirmation_date := Some (now e),
                 payment_status := ''COMPLETED''\<rparr>))
      else (False, b))"

text \<open>
  \<open>cancel_booking\<close> calls \<open>increase_available_seats\<close> on the cached travel option and drops
  the flag it returns.
\<close>

definition cancel_booking :: "env \<Rightarrow> Booking \<Rightarrow> bool \<times> Booking" where
  "cancel_booking e b =
     (if Booking_can_be_cancelled e b \<and> status b = ''CONFIRMED''
      then let b1 = b\<lparr>status := ''CANCELLED'', cancellation_date := Some (now e)\<rparr>;
               t' = snd (increase_available_seats e (number_of_seats b1) (travel_option b1));
               b2 = b1\<lparr>travel_option := t'\<rparr>
           in (True, Booking_save e b2)
      else (False, b))"

record BookingHistory =
  history_booking_id :: string
  status_from :: "string option"
  status_to :: string
  changed_by :: string
  reason :: string


text \<open>
  The refund schedule in the words of the specification: a function of the price and the
  whole days left. It is compared with \<open>refund_amount\<close> below.
\<close>

definition refund_policy :: "rat \<Rightarrow> int \<Rightarrow> amount" where
  "refund_policy price days =
     (if days \<ge> 7 then Float_product price (90 / 100)
      else if 3 \<le> days \<and> days < 7 then Float_product price (75 / 100)
      else if 1 \<le> days \<and> days < 3 then Float_product price (50 / 100)
      else Int_amount 0)"


section \<open>bookings/forms.py\<close>

text \<open>
  \<open>BookingForm\<close> with its bound data already converted by the fields. The validators
  declared on \<open>number_of_seats\<close> run first (all of them, collecting their errors);
  \<open>clean_number_of_seats\<close> runs only when they pass.
\<close>

record BookingForm =
  form_travel_option :: "TravelOption option"
  form_user :: string
  form_number_of_seats :: int
  form_contact_email :: string
  form_contact_phone :: string
  form_special_requests :: string
  agree_terms :: bool

datatype validation_error =
  MinValue int | MaxValue int | OnlySeatsAvailable int | Required | MaxLength nat

definition number_of_seats_validators :: "int \<Rightarrow> validation_error list + int" where
  "number_of_seats_validators seats =
     (let errors = (if seats < 1 then [MinValue 1] else []) @
                   (if seats > 10 then [MaxValue 10] else [])
      in if errors = [] then Inr seats else Inl errors)"

definition clean_number_of_seats :: "BookingForm \<Rightarrow> int \<Rightarrow> validation_error list + int" where
  "clean_number_of_seats form seats =
     (case form_travel_option form of
        Some t \<Rightarrow>
          if seats > available_seats t then Inl [OnlySeatsAvailable (available_seats t)]
          else Inr seats
      | None \<Rightarrow> Inr seats)"

definition number_of_seats_clean :: "BookingForm \<Rightarrow> validation_error list + int" where
  "number_of_seats_clean form =
     (case number_of_seats_validators (form_number_of_seats form) of
        Inl errors \<Rightarrow> Inl errors
      | Inr seats \<Rightarrow> clean_number_of_seats form seats)"

text \<open>
  \<open>is_valid\<close>: no field has an error. The syntax check of the e-mail address belongs to
  the framework and is a parameter.
\<close>

definition BookingForm_is_valid :: "(string \<Rightarrow> bool) \<Rightarrow> BookingForm \<Rightarrow> bool" where
  "BookingForm_is_valid valid_email form =
     (\<not> isl (number_of_seats_clean form) \<and>
      valid_email (form_contact_email form) \<and>
      form_contact_phone form \<noteq> [] \<and> length (form_contact_phone form) \<le> 15 \<and>
      agree_terms form)"

text \<open>
  \<open>total_price\<close> is a \<open>DecimalField(max_digits=10, decimal_places=2)\<close>: on the write the
  value is quantized to two places (half-even) under a precision of ten digits, which
  raises \<open>decimal.InvalidOperation\<close> when the quantized value needs more digits (a
  backend that hands the value to the database unquantized gets the database's overflow
  error at the same values).
\<close>

definition round_half_even :: "rat \<Rightarrow> int" where
  "round_half_even x =
     (let f = \<lfloor>x\<rfloor>; r = x - of_int f
      in if r < 1 / 2 then f else if r > 1 / 2 then f + 1
         else if even f then f else f + 1)"

definition fits_price_column :: "rat \<Rightarrow> bool" where
  "fits_price_column p = (\<bar>round_half_even (p * 100)\<bar> < 10 ^ 10)"

text \<open>
  \<open>BookingForm.save\<close>. \<open>super().save(commit=False)\<close> raises \<open>ValueError\<close> for a form with
  errors; otherwise the new instance carries the cleaned data and the defaults of the
  model fields. Without a travel option the read of \<open>base_price\<close> raises. With
  \<open>commit\<close>, the new row is written before the seats are reduced: the write fails when
  the price does not fit its column, and when the identifier just generated is already
  stored. The flag of \<open>reduce_available_seats\<close> is dropped.
\<close>

definition BookingForm_save ::
    "(string \<Rightarrow> bool) \<Rightarrow> env \<Rightarrow> BookingForm \<Rightarrow> bool \<Rightarrow> error + Booking" where
  "BookingForm_save valid_email e form commit =
     (if \<not> BookingForm_is_valid valid_email form then Inl ValueError
      else case form_travel_option form of
        None \<Rightarrow> Inl AttributeError
      | Some t \<Rightarrow>
          let booking = \<lparr>booking_id = [], user = form_user form, travel_option = t,
                 number_of_seats = form_number_of_seats form,
                 total_price = of_int (form_number_of_seats form) * base_price t,
                 status = ''PENDING'', payment_status = ''PENDING'',
                 confirmation_date = None, cancellation_date = None,
                 special_requests = form_special_requests form,
                 contact_email = form_contact_email form,
                 contact_phone = form_contact_phone form\<rparr>
          in if commit
             then if \<not> fits_price_column (total_price booking) then Inl InvalidOperation
                  else if generate_booking_id e \<in> set (stored_booking_ids e)
                  then Inl IntegrityError
                  else let b1 = Booking_save e booking;
                           t' = snd (reduce_available_seats e (number_of_seats b1) t)
                       in Inr (b1\<lparr>travel_option := t'\<rparr>)
             else Inr booking)"

text \<open>
  How Python binds the arguments of a call to a signature
  \<open>(self, p1=..., p2=..., *args, **kwargs)\<close>: the positional arguments fill the named
  parameters in order, and a keyword that names a parameter already filled raises
  \<open>TypeError\<close> (multiple values for the argument).
\<close>

definition bind_arguments :: "string list \<Rightarrow> nat \<Rightarrow> string list \<Rightarrow> error option" where
  "bind_arguments params npositional keywords =
     (if list_ex (\<lambda>k. k \<in> set (take npositional params)) keywords then Some TypeError
      else None)"

text \<open>
  \<open>CancellationForm.__init__(self, booking=None, *args, **kwargs)\<close>; the record holds the
  posted data of a bound form.
\<close>

definition CancellationForm_init_params :: "string list" where
  "CancellationForm_init_params = [''booking'']"

record CancellationForm =
  cancellation_reason :: string
  confirm_cancellation :: bool

definition is_space :: "char \<Rightarrow> bool" where
  "is_space c = (c \<in> set [CHR '' '', CHR 0x09, CHR 0x0A, CHR 0x0B, CHR 0x0C, CHR 0x0D,
                           CHR 0x1C, CHR 0x1D, CHR 0x1E, CHR 0x1F])"

definition strip :: "string \<Rightarrow> string" where
  "strip s = rev (dropWhile is_space (rev (dropWhile is_space s)))"

definition CancellationForm_is_valid :: "CancellationForm \<Rightarrow> bool" where
  "CancellationForm_is_valid form =
     (strip (cancellation_reason form) \<noteq> [] \<and> confirm_cancellation form)"


section \<open>bookings/views.py: payment and cancellation\<close>

text \<open>
  What a request can change: the booking row it addresses, the history rows, the popular
  route counters and the messages shown to the user. Sending the confirmation mail has no
  effect on them (its failures are swallowed) and is left out.
\<close>

datatype message = Error_message string | Cancelled_message string amount

datatype response = Redirect string string | Http404 | Render_template string | Raised error

record world =
  db_booking :: Booking
  history :: "BookingHistory list"
  popular_routes :: "((string \<times> string) \<times> int) list"
  messages :: "message list"

definition get_object_or_404 :: "world \<Rightarrow> string \<Rightarrow> string \<Rightarrow> string \<Rightarrow> Booking option" where
  "get_object_or_404 w bid usr st =
     (let b = db_booking w
      in if booking_id b = bid \<and> user b = usr \<and> status b = st then Some b else None)"

definition process_payment :: "env \<Rightarrow> bool" where
  "process_payment e = (payment_draw e < 95 / 100)"

definition increment_booking_count ::
    "string \<Rightarrow> string \<Rightarrow> ((string \<times> string) \<times> int) list \<Rightarrow> ((string \<times> string) \<times> int) list" where
  "increment_booking_count src dst routes =
     (case map_of routes (src, dst) of
        None \<Rightarrow> routes @ [((src, dst), 1)]
      | Some n \<Rightarrow> map (\<lambda>(k, v). if k = (src, dst) then (k, v + 1) else (k, v)) routes)"

definition PaymentView_post :: "env \<Rightarrow> string \<Rightarrow> string \<Rightarrow> world \<Rightarrow> response \<times> world" where
  "PaymentView_post e usr bid w =
     (case get_object_or_404 w bid usr ''PENDING'' of
        None \<Rightarrow> (Http404, w)
      | Some booking \<Rightarrow>
          if process_payment e
          then let b1 = Booking_save e
                          (booking\<lparr>status := ''CONFIRMED'', payment_status := ''PAID''\<rparr>);
                   row = \<lparr>history_booking_id = booking_id b1, status_from = Some ''PENDING'',
                          status_to = ''CONFIRMED'', changed_by = usr,
                          reason = ''Payment completed successfully''\<rparr>
               in (Redirect ''bookings:payment_success'' (booking_id b1),
                   w\<lparr>db_booking := b1,
                     popular_routes :=
                       increment_booking_count (source (travel_option b1))
                         (destination (travel_option b1)) (popular_routes w),
                     history := history w @ [row]\<rparr>)
          else (Redirect ''bookings:payment_failure'' (booking_id booking),
                w\<lparr>messages := messages w @
                     [Error_message ''Payment processing failed. Please try again.'']\<rparr>))"

text \<open>
  \<open>BookingCancelView\<close>: \<open>dispatch\<close> followed by \<open>post\<close>. \<open>post\<close> starts with
  \<open>CancellationForm(request.POST, booking=self.booking)\<close>, one positional argument and the
  keyword \<open>booking\<close>; the rest of its body runs only if that call returns.
\<close>

definition BookingCancelView_post ::
    "env \<Rightarrow> string \<Rightarrow> string \<Rightarrow> CancellationForm \<Rightarrow> world \<Rightarrow> response \<times> world" where
  "BookingCancelView_post e usr bid form w =
     (case get_object_or_404 w bid usr ''CONFIRMED'' of
        None \<Rightarrow> (Http404, w)
      | Some booking \<Rightarrow>
          if departure_datetime (travel_option booking) \<le> now e + hours 24
          then (Redirect ''bookings:detail'' (booking_id booking),
                w\<lparr>messages := messages w @
                     [Error_message
                        ''Cancellation is not allowed within 24 hours of departure.'']\<rparr>)
          else (case bind_arguments CancellationForm_init_params 1 [''booking''] of
                  Some err \<Rightarrow> (Raised err, w)
                | None \<Rightarrow>
                    if CancellationForm_is_valid form
                    then let b1 = Booking_save e
                                    (booking\<lparr>status := ''CANCELLED'',
                                             cancellation_date := Some (now e)\<rparr>);
                             w1 = w\<lparr>db_booking := b1\<rparr>
                         in (case TravelOption_seat_method ''restore_available_seats'' of
                               None \<Rightarrow> (Raised AttributeError, w1)
                             | Some restore \<Rightarrow>
                                 let t' = snd (restore e (number_of_seats b1)
                                                 (travel_option b1));
                                     b2 = b1\<lparr>travel_option := t'\<rparr>;
                                     row = \<lparr>history_booking_id = booking_id b2,
                                            status_from = Some ''CONFIRMED'',
                                            status_to = ''CANCELLED'', changed_by = usr,
                                            reason = strip (cancellation_reason form)\<rparr>
                                 in (Redirect ''bookings:detail'' (booking_id b2),
                                     w1\<lparr>db_booking := b2, history := history w1 @ [row],
                                        messages := messages w1 @
                                          [Cancelled_message (booking_id b2)
                                             (fst (refund_amount e b2))]\<rparr>))
                    else (Render_template ''bookings/cancel.html'', w)))"


section \<open>Concrete objects used by the closed theorems\<close>

definition env0 :: env where
  "env0 = \<lparr>now = 0, travel_digits = ''123456'', booking_digits = ''7654321'',
           payment_draw = 1 / 2, stored_booking_ids = [''TKT0000001'']\<rparr>"

definition open_option :: TravelOption where
  "open_option = \<lparr>travel_id = ''FL000002'', travel_type = ''FLIGHT'',
     source = ''Mumbai'', destination = ''Delhi'',
     departure_datetime = hours 240, departure_utcoffset = 0,
     arrival_datetime = hours 242, duration = hours 2,
     base_price = 5000, available_seats = 70, total_seats = 100\<rparr>"

definition confirmed_booking :: Booking where
  "confirmed_booking = \<lparr>booking_id = ''TKT0000001'', user = ''alice'',
     travel_option = open_option, number_of_seats = 30, total_price = 150000,
     status = ''CONFIRMED'', payment_status = ''COMPLETED'',
     confirmation_date = Some (- 5), cancellation_date = None,
     special_requests = [], contact_email = ''alice@example.com'',
     contact_phone = ''1234567890''\<rparr>"

definition pending_booking :: Booking where
  "pending_booking = confirmed_booking\<lparr>status := ''PENDING'',
     payment_status := ''PENDING'', confirmation_date := None\<rparr>"

definition world0 :: world where
  "world0 = \<lparr>db_booking = pending_booking, history = [], popular_routes = [],
     messages = []\<rparr>"

definition cancellation_form0 :: CancellationForm where
  "cancellation_form0 = \<lparr>cancellation_reason = ''Change in travel plans'',
     confirm_cancellation = True\<rparr>"

definition full_option :: TravelOption where
  "full_option = \<lparr>travel_id = ''FL000001'', travel_type = ''FLIGHT'',
     source = ''Mumbai'', destination = ''Delhi'',
     departure_datetime = hours 240, departure_utcoffset = 0,
     arrival_datetime = hours 242, duration = hours 2,
     base_price = 5000, available_seats = 99, total_seats = 100\<rparr>"

definition pending_soon :: Booking where
  "pending_soon =
     pending_booking\<lparr>travel_option := open_option\<lparr>departure_datetime := hours 1\<rparr>\<rparr>"

definition crowded_booking :: Booking where
  "crowded_booking = confirmed_booking\<lparr>travel_option := full_option, number_of_seats := 2\<rparr>"

definition confirmed_world :: world where
  "confirmed_world = world0\<lparr>db_booking := confirmed_booking\<rparr>"

definition modest_form :: BookingForm where
  "modest_form = \<lparr>form_travel_option = Some open_option, form_user = ''alice'',
     form_number_of_seats = 3, form_contact_email = ''alice@example.com'',
     form_contact_phone = ''1234567890'', form_special_requests = [], agree_terms = True\<rparr>"

definition greedy_form :: BookingForm where
  "greedy_form = \<lparr>form_travel_option = Some open_option, form_user = ''alice'',
     form_number_of_seats = 11, form_contact_email = ''alice@example.com'',
     form_contact_phone = ''1234567890'', form_special_requests = [], agree_terms = True\<rparr>"


section \<open>Auxiliary facts\<close>

lemma TravelOption_save_seats [simp]:
  "available_seats (TravelOption_save e t) = available_seats t"
  "total_seats (TravelOption_save e t) = total_seats t"
  by (simp_all add: TravelOption_save_def Let_def)

lemma apply_call_total [simp]: "total_seats (apply_call e c t) = total_seats t"
  by (cases c) (simp_all add: reduce_available_seats_def increase_available_seats_def)

lemma apply_call_in_range:
  assumes "seats_in_range t" and "0 \<le> call_count c"
  shows "seats_in_range (apply_call e c t)"
  using assms
  by (cases c)
     (auto simp add: seats_in_range_def reduce_available_seats_def increase_available_seats_def)

lemma hasattr_can_be_cancelled: "TravelOption_hasattr ''can_be_cancelled''"
  by (simp add: TravelOption_hasattr_def TravelOption_attrs_def)

lemma restore_available_seats_missing:
  "TravelOption_seat_method ''restore_available_seats'' = None"
  by (simp add: TravelOption_seat_method_def)

text \<open>
  The travel option defines \<open>can_be_cancelled\<close>, so the booking's property always takes
  that branch, and the 24-hour deadline of the travel option decides.
\<close>

lemma cancellable_unfolded:
  "Booking_can_be_cancelled e b =
     (status b \<noteq> ''CANCELLED'' \<and> status b \<noteq> ''COMPLETED'' \<and>
      now e < departure_datetime (travel_option b) - hours 24)"
  by (auto simp add: Booking_can_be_cancelled_def is_past_travel_def hasattr_can_be_cancelled
      TravelOption_can_be_cancelled_def hours_def)

lemma Booking_save_fields [simp]:
  "total_price (Booking_save e b) = total_price b"
  "status (Booking_save e b) = status b"
  "payment_status (Booking_save e b) = payment_status b"
  "travel_option (Booking_save e b) = travel_option b"
  "number_of_seats (Booking_save e b) = number_of_seats b"
  by (simp_all add: Booking_save_def Let_def)

lemma Booking_save_dates:
  "confirmation_date b \<noteq> None \<Longrightarrow> confirmation_date (Booking_save e b) = confirmation_date b"
  "cancellation_date b \<noteq> None \<Longrightarrow> cancellation_date (Booking_save e b) = cancellation_date b"
  by (simp_all add: Booking_save_def Let_def)

lemma confirm_booking_total_price: "total_price (snd (confirm_booking e b)) = total_price b"
  by (simp add: confirm_booking_def)

lemma cancel_booking_total_price: "total_price (snd (cancel_booking e b)) = total_price b"
  by (simp add: cancel_booking_def Let_def)

text \<open>
  A booking that can be cancelled and whose departure is a UTC datetime departs on a
  later calendar day.
\<close>

lemma eligible_days_positive:
  assumes "Booking_can_be_cancelled e b" and "departure_utcoffset (travel_option b) = 0"
  shows "1 \<le> days_until_travel e b"
proof -
  from assms have w: "now e < departure_datetime (travel_option b) - hours 24"
    by (simp add: cancellable_unfolded)
  then have "now e + 86400000000 \<le> departure_datetime (travel_option b)"
    by (simp add: hours_def)
  then have "(now e + 86400000000) div 86400000000
               \<le> departure_datetime (travel_option b) div 86400000000"
    by (rule zdiv_mono1) simp
  then have "date_of (now e) + 1 \<le> date_of (departure_datetime (travel_option b))"
    by (simp add: date_of_def)
  moreover from w have "\<not> is_past_travel e b"
    by (simp add: is_past_travel_def hours_def)
  ultimately show ?thesis using assms(2) by (simp add: days_until_travel_def)
qed

lemma bind_CancellationForm_post:
  "bind_arguments CancellationForm_init_params 1 [''booking''] = Some TypeError"
  "bind_arguments CancellationForm_init_params (Suc 0) [''booking''] = Some TypeError"
  by (simp_all add: bind_arguments_def CancellationForm_init_params_def)

lemma bind_CancellationForm_get:
  "bind_arguments CancellationForm_init_params 0 [''booking''] = None"
  by (simp add: bind_arguments_def CancellationForm_init_params_def)


section \<open>Cancellation eligibility\<close>

text \<open>
  C1, as stated: \<open>can_be_cancelled\<close> is true for a PENDING or CONFIRMED booking at any time
  strictly before departure, also within 24 hours of it. It fails: a PENDING booking
  whose travel option departs one hour from now has not departed, and
  \<open>can_be_cancelled\<close> is false, because the property hands over to the travel option's
  own \<open>can_be_cancelled\<close> and its 24-hour deadline.
\<close>

theorem can_be_cancelled_window_counterexample:
  "status pending_soon = ''PENDING'' \<and>
   now env0 < departure_datetime (travel_option pending_soon) \<and>
   \<not> Booking_can_be_cancelled env0 pending_soon"
  by (simp add: pending_soon_def pending_booking_def confirmed_booking_def open_option_def
      env0_def Booking_can_be_cancelled_def is_past_travel_def hasattr_can_be_cancelled
      TravelOption_can_be_cancelled_def hours_def)

text \<open>
  C1, amended: for every booking, \<open>can_be_cancelled\<close> is false when the status is
  CANCELLED or COMPLETED or when the departure is not more than 24 hours away (or has
  passed), and true otherwise; in particular it is true for a PENDING or CONFIRMED
  booking at any time more than 24 hours before departure.
\<close>

theorem can_be_cancelled_iff:
  "Booking_can_be_cancelled e b \<longleftrightarrow>
     status b \<notin> set [''CANCELLED'', ''COMPLETED''] \<and>
     now e < departure_datetime (travel_option b) - hours 24"
  by (auto simp add: Booking_can_be_cancelled_def is_past_travel_def hasattr_can_be_cancelled
      TravelOption_can_be_cancelled_def hours_def)

theorem can_be_cancelled_iff_witness:
  "Booking_can_be_cancelled env0 confirmed_booking \<and>
   \<not> Booking_can_be_cancelled env0 (confirmed_booking\<lparr>status := ''COMPLETED''\<rparr>) \<and>
   \<not> Booking_can_be_cancelled (env0\<lparr>now := hours 217\<rparr>) confirmed_booking"
  using can_be_cancelled_iff [of env0 confirmed_booking]
        can_be_cancelled_iff [of env0 "confirmed_booking\<lparr>status := ''COMPLETED''\<rparr>"]
        can_be_cancelled_iff [of "env0\<lparr>now := hours 217\<rparr>" confirmed_booking]
  by (simp add: confirmed_booking_def open_option_def env0_def hours_def)


section \<open>Seat inventory\<close>

text \<open>
  C2, as stated: every sequence of reduce and increase calls, with any arguments, keeps
  \<open>0 \<le> available_seats \<le> total_seats\<close>. It fails for a negative count: on an option with
  99 of 100 seats available, \<open>reduce_available_seats(-2)\<close> passes the guard
  \<open>available_seats >= count\<close> and leaves 101 available seats.
\<close>

theorem seat_range_negative_count_counterexample:
  "seats_in_range full_option \<and>
   \<not> seats_in_range (run_calls [(env0, Reduce (- 2))] full_option)"
  by (simp add: seats_in_range_def full_option_def reduce_available_seats_def)

text \<open>
  C2, amended: for every travel option with \<open>0 \<le> available_seats \<le> total_seats\<close>, every
  finite sequence of reduce and increase calls whose counts are all non-negative keeps
  \<open>0 \<le> available_seats \<le> total_seats\<close>.
\<close>

theorem seat_range_preserved:
  assumes "seats_in_range t" and "\<forall>(e, c) \<in> set cs. 0 \<le> call_count c"
  shows "seats_in_range (run_calls cs t)"
  using assms
proof (induction cs arbitrary: t)
  case Nil
  then show ?case by simp
next
  case (Cons ec cs)
  obtain e c where ec: "ec = (e, c)" by (cases ec)
  from Cons.prems ec have "seats_in_range (apply_call e c t)"
    by (simp add: apply_call_in_range)
  moreover from Cons.prems have "\<forall>(e, c) \<in> set cs. 0 \<le> call_count c" by simp
  ultimately show ?case using Cons.IH ec by simp
qed

theorem seat_range_preserved_witness:
  "seats_in_range full_option \<and>
   seats_in_range
     (run_calls [(env0, Reduce 30), (env0, Increase 40), (env0, Increase 31)] full_option) \<and>
   available_seats
     (run_calls [(env0, Reduce 30), (env0, Increase 40), (env0, Increase 31)] full_option)
     = 100"
proof -
  have a: "seats_in_range full_option"
    by (simp add: seats_in_range_def full_option_def)
  have b: "\<forall>(e, c) \<in> set [(env0, Reduce 30), (env0, Increase 40), (env0, Increase 31)].
      0 \<le> call_count c"
    by simp
  have c: "available_seats
      (run_calls [(env0, Reduce 30), (env0, Increase 40), (env0, Increase 31)] full_option)
      = 100"
    by (simp add: full_option_def reduce_available_seats_def increase_available_seats_def)
  show ?thesis using a c seat_range_preserved [OF a b] by simp
qed

text \<open>
  C3. For every stored travel option (\<open>available_seats \<ge> 0\<close>) and every count \<open>n \<ge> 0\<close>:
  \<open>reduce_available_seats(n)\<close> returns true exactly when \<open>available_seats \<ge> n\<close>, and then
  decrements \<open>available_seats\<close> by exactly \<open>n\<close>; otherwise it returns false and leaves the
  object as it was. \<open>increase_available_seats(n)\<close> returns true exactly when
  \<open>available_seats + n \<le> total_seats\<close>, and then increments \<open>available_seats\<close> by exactly
  \<open>n\<close>; otherwise it returns false and leaves the object as it was. \<open>total_seats\<close> is never
  touched, and the value written stays between 0 and the larger of the old value and
  \<open>total_seats\<close>, so the write is accepted.
\<close>

theorem seat_adjustment_iff:
  assumes "0 \<le> n" and "0 \<le> available_seats t"
  shows
  "fst (reduce_available_seats e n t) = (available_seats t \<ge> n) \<and>
   (if available_seats t \<ge> n
    then available_seats (snd (reduce_available_seats e n t)) = available_seats t - n
    else snd (reduce_available_seats e n t) = t) \<and>
   total_seats (snd (reduce_available_seats e n t)) = total_seats t \<and>
   0 \<le> available_seats (snd (reduce_available_seats e n t)) \<and>
   available_seats (snd (reduce_available_seats e n t)) \<le> available_seats t \<and>
   fst (increase_available_seats e n t) = (available_seats t + n \<le> total_seats t) \<and>
   (if available_seats t + n \<le> total_seats t
    then available_seats (snd (increase_available_seats e n t)) = available_seats t + n
    else snd (increase_available_seats e n t) = t) \<and>
   total_seats (snd (increase_available_seats e n t)) = total_seats t \<and>
   0 \<le> available_seats (snd (increase_available_seats e n t)) \<and>
   available_seats (snd (increase_available_seats e n t))
     \<le> max (available_seats t) (total_seats t)"
  using assms by (simp add: reduce_available_seats_def increase_available_seats_def)

theorem seat_adjustment_iff_witness:
  "fst (reduce_available_seats env0 30 full_option) \<and>
   available_seats (snd (reduce_available_seats env0 30 full_option)) = 69 \<and>
   \<not> fst (reduce_available_seats env0 100 full_option) \<and>
   snd (reduce_available_seats env0 100 full_option) = full_option \<and>
   fst (increase_available_seats env0 1 full_option) \<and>
   available_seats (snd (increase_available_seats env0 1 full_option)) = 100 \<and>
   \<not> fst (increase_available_seats env0 2 full_option) \<and>
   snd (increase_available_seats env0 2 full_option) = full_option"
proof -
  have a: "0 \<le> available_seats full_option" by (simp add: full_option_def)
  show ?thesis
    using seat_adjustment_iff [of 30 full_option env0, OF _ a]
          seat_adjustment_iff [of 100 full_option env0, OF _ a]
          seat_adjustment_iff [of 1 full_option env0, OF _ a]
          seat_adjustment_iff [of 2 full_option env0, OF _ a]
    by (simp add: full_option_def)
qed


section \<open>Booking state machine\<close>

text \<open>
  C4. \<open>confirm_booking()\<close> returns true exactly when the status is PENDING at the call, and
  then leaves the booking with status CONFIRMED, payment status COMPLETED and the
  confirmation date set to the time of the call; from any other status it returns false
  and changes no field. A second call right after the first therefore returns false and
  changes nothing, whatever the first one did.
\<close>

theorem confirm_booking_only_from_pending:
  "fst (confirm_booking e b) = (status b = ''PENDING'') \<and>
   (if status b = ''PENDING''
    then status (snd (confirm_booking e b)) = ''CONFIRMED'' \<and>
         payment_status (snd (confirm_booking e b)) = ''COMPLETED'' \<and>
         confirmation_date (snd (confirm_booking e b)) = Some (now e)
    else snd (confirm_booking e b) = b) \<and>
   confirm_booking e' (snd (confirm_booking e b)) = (False, snd (confirm_booking e b))"
  by (simp add: confirm_booking_def Booking_save_dates)

theorem confirm_booking_only_from_pending_witness:
  "fst (confirm_booking env0 pending_booking) \<and>
   status (snd (confirm_booking env0 pending_booking)) = ''CONFIRMED'' \<and>
   payment_status (snd (confirm_booking env0 pending_booking)) = ''COMPLETED'' \<and>
   confirmation_date (snd (confirm_booking env0 pending_booking)) = Some 0 \<and>
   confirm_booking (env0\<lparr>now := 9\<rparr>) (snd (confirm_booking env0 pending_booking)) =
     (False, snd (confirm_booking env0 pending_booking)) \<and>
   confirm_booking env0 confirmed_booking = (False, confirmed_booking)"
  using confirm_booking_only_from_pending [of env0 pending_booking "env0\<lparr>now := 9\<rparr>"]
        confirm_booking_only_from_pending [of env0 confirmed_booking env0]
  by (simp add: pending_booking_def confirmed_booking_def env0_def prod_eq_iff)

text \<open>
  C5, as stated: after a successful \<open>cancel_booking()\<close> the travel option's
  \<open>available_seats\<close> has increased by exactly \<open>number_of_seats\<close>. It fails when the seats do
  not fit: a CONFIRMED booking of 2 seats on an option with 99 of 100 seats available is
  cancelled successfully, and \<open>available_seats\<close> is still 99 (neither 101 nor 100),
  because \<open>increase_available_seats\<close> refuses and \<open>cancel_booking\<close> does not look at its
  result.
\<close>

theorem cancel_booking_full_counterexample:
  "status crowded_booking = ''CONFIRMED'' \<and>
   Booking_can_be_cancelled env0 crowded_booking \<and>
   fst (cancel_booking env0 crowded_booking) \<and>
   number_of_seats crowded_booking = 2 \<and>
   available_seats (travel_option crowded_booking) = 99 \<and>
   available_seats (travel_option (snd (cancel_booking env0 crowded_booking))) = 99"
  by (simp add: crowded_booking_def confirmed_booking_def full_option_def env0_def
      cancel_booking_def Let_def increase_available_seats_def cancellable_unfolded hours_def)

text \<open>
  C5, amended: \<open>cancel_booking()\<close> returns false and changes nothing unless the status is
  CONFIRMED and \<open>can_be_cancelled\<close> holds; after a successful call the status is
  CANCELLED, the cancellation date is set, and the travel option's \<open>available_seats\<close> has
  increased by exactly \<open>number_of_seats\<close> when
  \<open>available_seats + number_of_seats \<le> total_seats\<close>, and is unchanged otherwise;
  \<open>total_seats\<close> is unchanged.
\<close>

theorem cancel_booking_effect:
  "fst (cancel_booking e b) = (status b = ''CONFIRMED'' \<and> Booking_can_be_cancelled e b) \<and>
   (if status b = ''CONFIRMED'' \<and> Booking_can_be_cancelled e b
    then status (snd (cancel_booking e b)) = ''CANCELLED'' \<and>
         cancellation_date (snd (cancel_booking e b)) = Some (now e) \<and>
         available_seats (travel_option (snd (cancel_booking e b))) =
           (if available_seats (travel_option b) + number_of_seats b
                 \<le> total_seats (travel_option b)
            then available_seats (travel_option b) + number_of_seats b
            else available_seats (travel_option b)) \<and>
         total_seats (travel_option (snd (cancel_booking e b))) = total_seats (travel_option b)
    else snd (cancel_booking e b) = b)"
  by (simp add: cancel_booking_def Let_def Booking_save_dates increase_available_seats_def)

theorem cancel_booking_effect_witness:
  "fst (cancel_booking env0 confirmed_booking) \<and>
   status (snd (cancel_booking env0 confirmed_booking)) = ''CANCELLED'' \<and>
   cancellation_date (snd (cancel_booking env0 confirmed_booking)) = Some 0 \<and>
   available_seats (travel_option (snd (cancel_booking env0 confirmed_booking))) = 100 \<and>
   cancel_booking env0 pending_booking = (False, pending_booking)"
  using cancel_booking_effect [of env0 confirmed_booking]
        cancel_booking_effect [of env0 pending_booking]
  by (simp add: pending_booking_def confirmed_booking_def open_option_def env0_def
      cancellable_unfolded hours_def prod_eq_iff)


section \<open>Refund policy\<close>

text \<open>
  C6, as stated: for a booking that may still be cancelled in the sense the claims give
  to the model (status neither CANCELLED nor COMPLETED, departure not passed), the
  refund is 50 percent of the price when \<open>days_until_travel\<close> is 1 or 2. It fails within
  24 hours of departure: a CONFIRMED booking one hour before a departure on the next
  calendar day has \<open>days_until_travel = 1\<close>, and its \<open>refund_amount\<close> is 0, because
  \<open>refund_amount\<close> starts with \<open>if not self.can_be_cancelled: return 0\<close>.
\<close>

theorem refund_last_day_counterexample:
  "status confirmed_booking = ''CONFIRMED'' \<and>
   now (env0\<lparr>now := hours 239\<rparr>) < departure_datetime (travel_option confirmed_booking) \<and>
   days_until_travel (env0\<lparr>now := hours 239\<rparr>) confirmed_booking = 1 \<and>
   refund_policy (total_price confirmed_booking) 1 = Float_product 150000 (1 / 2) \<and>
   fst (refund_amount (env0\<lparr>now := hours 239\<rparr>) confirmed_booking) = Int_amount 0"
  by (simp add: refund_amount_def cancellable_unfolded refund_policy_def
      days_until_travel_def is_past_travel_def date_of_def confirmed_booking_def
      open_option_def env0_def hours_def)

text \<open>
  C6, amended: for every booking, \<open>refund_amount\<close> is 0 when \<open>can_be_cancelled\<close> is false
  (status CANCELLED or COMPLETED, or departure not more than 24 hours away), and
  otherwise it is the schedule applied to \<open>total_price\<close> and \<open>days_until_travel\<close>: the
  floating-point product of the price with 0.9 from 7 days on, with 0.75 from 3 to 6
  days, with 0.5 for 1 or 2 days, and 0 below 1 day. It is 0 whenever
  \<open>days_until_travel\<close> is 0. \<open>days_until_travel\<close> is 0 once the departure has passed and
  the difference of the calendar dates of departure and now otherwise. Reading
  \<open>refund_amount\<close> leaves the booking, and so its payment status, as it was.
\<close>

theorem refund_amount_policy:
  "fst (refund_amount e b) =
     (if Booking_can_be_cancelled e b
      then refund_policy (total_price b) (days_until_travel e b)
      else Int_amount 0) \<and>
   (days_until_travel e b = 0 \<longrightarrow> fst (refund_amount e b) = Int_amount 0) \<and>
   days_until_travel e b =
     (if departure_datetime (travel_option b) < now e then 0
      else date_of (departure_datetime (travel_option b)
                    + departure_utcoffset (travel_option b))
           - date_of (now e)) \<and>
   snd (refund_amount e b) = b \<and>
   payment_status (snd (refund_amount e b)) = payment_status b"
  by (simp add: refund_amount_def refund_policy_def Let_def days_until_travel_def
      is_past_travel_def)

theorem refund_amount_policy_witness:
  "days_until_travel env0 confirmed_booking = 10 \<and>
   fst (refund_amount env0 confirmed_booking) = Float_product 150000 (9 / 10) \<and>
   fst (refund_amount (env0\<lparr>now := hours 120\<rparr>) confirmed_booking) =
     Float_product 150000 (3 / 4) \<and>
   fst (refund_amount (env0\<lparr>now := hours 200\<rparr>) confirmed_booking) =
     Float_product 150000 (1 / 2) \<and>
   days_until_travel (env0\<lparr>now := hours 241\<rparr>) confirmed_booking = 0 \<and>
   fst (refund_amount (env0\<lparr>now := hours 241\<rparr>) confirmed_booking) = Int_amount 0 \<and>
   snd (refund_amount env0 confirmed_booking) = confirmed_booking"
  using refund_amount_policy [of env0 confirmed_booking]
        refund_amount_policy [of "env0\<lparr>now := hours 120\<rparr>" confirmed_booking]
        refund_amount_policy [of "env0\<lparr>now := hours 200\<rparr>" confirmed_booking]
        refund_amount_policy [of "env0\<lparr>now := hours 241\<rparr>" confirmed_booking]
  by (simp add: cancellable_unfolded refund_policy_def confirmed_booking_def open_option_def
      env0_def hours_def date_of_def)


section \<open>Payment and cancellation flows\<close>

text \<open>
  The payment view in general: for the PENDING booking of the requesting user, a passing
  draw writes CONFIRMED and \<open>'PAID'\<close> and appends one history row; a failing draw leaves
  the booking, the history and the counters alone and adds an error message.
\<close>

lemma PaymentView_post_pass:
  assumes "booking_id (db_booking w) = bid" and "user (db_booking w) = usr"
    and "status (db_booking w) = ''PENDING''" and "process_payment e"
  shows "status (db_booking (snd (PaymentView_post e usr bid w))) = ''CONFIRMED''"
    and "payment_status (db_booking (snd (PaymentView_post e usr bid w))) = ''PAID''"
    and "length (history (snd (PaymentView_post e usr bid w))) = Suc (length (history w))"
  using assms by (simp_all add: PaymentView_post_def get_object_or_404_def Let_def)

lemma PaymentView_post_fail:
  assumes "booking_id (db_booking w) = bid" and "user (db_booking w) = usr"
    and "status (db_booking w) = ''PENDING''" and "\<not> process_payment e"
  shows "PaymentView_post e usr bid w =
           (Redirect ''bookings:payment_failure'' bid,
            w\<lparr>messages := messages w @
                 [Error_message ''Payment processing failed. Please try again.'']\<rparr>)"
  using assms by (simp add: PaymentView_post_def get_object_or_404_def Let_def)

text \<open>
  The cancellation view in general: whenever \<open>dispatch\<close> lets the request through
  (CONFIRMED booking of the requesting user, departure more than 24 hours away), \<open>post\<close>
  raises \<open>TypeError\<close> at the construction of the form, whatever was posted, and nothing
  has changed.
\<close>

lemma BookingCancelView_post_accepted:
  assumes "booking_id (db_booking w) = bid" and "user (db_booking w) = usr"
    and "status (db_booking w) = ''CONFIRMED''"
    and "now e + hours 24 < departure_datetime (travel_option (db_booking w))"
  shows "BookingCancelView_post e usr bid form w = (Raised TypeError, w)"
  using assms
  by (simp add: BookingCancelView_post_def get_object_or_404_def Let_def
      bind_CancellationForm_post)

text \<open>
  C7 says that a passing draw leaves the booking CONFIRMED with payment status COMPLETED,
  through \<open>confirm_booking\<close>. The view does not call \<open>confirm_booking\<close>: it writes the two
  fields itself, and the payment status it writes is \<open>'PAID'\<close>, which is not among
  \<open>PAYMENT_STATUS\<close>. Here the draw passes for a PENDING booking; \<open>confirm_booking\<close> on the
  same booking gives COMPLETED.
\<close>

theorem payment_pass_sets_paid:
  "process_payment env0 \<and>
   fst (PaymentView_post env0 ''alice'' ''TKT0000001'' world0) =
     Redirect ''bookings:payment_success'' ''TKT0000001'' \<and>
   status (db_booking (snd (PaymentView_post env0 ''alice'' ''TKT0000001'' world0))) =
     ''CONFIRMED'' \<and>
   payment_status (db_booking (snd (PaymentView_post env0 ''alice'' ''TKT0000001'' world0))) =
     ''PAID'' \<and>
   ''PAID'' \<notin> set PAYMENT_STATUS \<and>
   payment_status (snd (confirm_booking env0 pending_booking)) = ''COMPLETED''"
  by (simp add: PaymentView_post_def get_object_or_404_def world0_def pending_booking_def
      confirmed_booking_def process_payment_def env0_def Let_def PAYMENT_STATUS_def
      confirm_booking_def Booking_save_def)

text \<open>
  C8 says that the cancellation flow leaves the booking CANCELLED, restores the seats,
  appends the history row and reports the refund. The view's \<open>post\<close> passes
  \<open>request.POST\<close> positionally to a constructor whose first parameter is \<open>booking\<close>, and
  \<open>booking\<close> again by keyword: for a CONFIRMED booking ten days before departure and a
  valid form, the request ends in a \<open>TypeError\<close> with the booking still CONFIRMED, the
  seats as they were, no history row and no message.
\<close>

theorem cancel_view_raises:
  "fst (BookingCancelView_post env0 ''alice'' ''TKT0000001'' cancellation_form0
         confirmed_world) = Raised TypeError \<and>
   snd (BookingCancelView_post env0 ''alice'' ''TKT0000001'' cancellation_form0
         confirmed_world) = confirmed_world \<and>
   status (db_booking confirmed_world) = ''CONFIRMED'' \<and>
   cancellation_date (db_booking confirmed_world) = None \<and>
   available_seats (travel_option (db_booking confirmed_world)) = 70 \<and>
   history confirmed_world = [] \<and>
   messages confirmed_world = [] \<and>
   CancellationForm_is_valid cancellation_form0"
  by (simp add: BookingCancelView_post_def get_object_or_404_def confirmed_world_def
      world0_def confirmed_booking_def open_option_def env0_def hours_def Let_def
      bind_CancellationForm_post CancellationForm_is_valid_def cancellation_form0_def
      strip_def is_space_def)


section \<open>Booking creation\<close>

text \<open>
  C9. Whenever \<open>BookingForm.save\<close> returns a booking, its \<open>total_price\<close> is
  \<open>number_of_seats\<close> times the travel option's \<open>base_price\<close> at that moment; it returns one
  exactly when the form is valid, has a travel option and, with \<open>commit\<close>, the price fits
  its column and the generated identifier is new. After that, \<open>confirm_booking\<close>, \<open>cancel_booking\<close> and the model's \<open>save\<close>
  leave \<open>total_price\<close> as it is, and so does a change of the travel option's
  \<open>base_price\<close>, also when one of the three operations follows the change.
\<close>

theorem total_price_fixed:
  "(BookingForm_save valid_email e form commit = Inr bk \<longrightarrow>
      (\<exists>t. form_travel_option form = Some t \<and>
           total_price bk = of_int (form_number_of_seats form) * base_price t \<and>
           number_of_seats bk = form_number_of_seats form)) \<and>
   ((\<exists>bk'. BookingForm_save valid_email e form commit = Inr bk') \<longleftrightarrow>
      BookingForm_is_valid valid_email form \<and>
      (case form_travel_option form of
         None \<Rightarrow> False
       | Some t \<Rightarrow>
           commit \<longrightarrow>
             fits_price_column (of_int (form_number_of_seats form) * base_price t) \<and>
             generate_booking_id e \<notin> set (stored_booking_ids e))) \<and>
   total_price (snd (confirm_booking e b)) = total_price b \<and>
   total_price (snd (cancel_booking e b)) = total_price b \<and>
   total_price (Booking_save e b) = total_price b \<and>
   total_price (b\<lparr>travel_option := (travel_option b)\<lparr>base_price := p\<rparr>\<rparr>) = total_price b \<and>
   total_price (snd (confirm_booking e
       (b\<lparr>travel_option := (travel_option b)\<lparr>base_price := p\<rparr>\<rparr>))) = total_price b \<and>
   total_price (snd (cancel_booking e
       (b\<lparr>travel_option := (travel_option b)\<lparr>base_price := p\<rparr>\<rparr>))) = total_price b \<and>
   total_price (Booking_save e
       (b\<lparr>travel_option := (travel_option b)\<lparr>base_price := p\<rparr>\<rparr>)) = total_price b"
  by (auto simp add: cancel_booking_total_price confirm_booking_total_price
      BookingForm_save_def Let_def split: option.splits if_splits)

theorem total_price_fixed_witness:
  "BookingForm_is_valid (\<lambda>s. True) modest_form \<and>
   fits_price_column 15000 \<and>
   (\<exists>bk'. BookingForm_save (\<lambda>s. True) env0 modest_form True = Inr bk' \<and>
         total_price bk' = 15000) \<and>
   total_price (snd (confirm_booking env0 pending_booking)) = 150000 \<and>
   total_price (snd (cancel_booking env0 confirmed_booking)) = 150000"
proof -
  have v: "BookingForm_is_valid (\<lambda>s. True) modest_form"
    by (simp add: BookingForm_is_valid_def modest_form_def number_of_seats_clean_def
        number_of_seats_validators_def clean_number_of_seats_def open_option_def)
  have f: "fits_price_column 15000"
    by (simp add: fits_price_column_def round_half_even_def)
  have t: "form_travel_option modest_form = Some open_option"
    "form_number_of_seats modest_form = 3" "base_price open_option = 5000"
    "generate_booking_id env0 \<notin> set (stored_booking_ids env0)"
    by (simp_all add: modest_form_def open_option_def generate_booking_id_def env0_def)
  have "\<exists>bk'. BookingForm_save (\<lambda>s. True) env0 modest_form True = Inr bk'"
    using v f t
      total_price_fixed [where valid_email = "\<lambda>s. True" and e = env0 and form = modest_form
        and commit = True and b = pending_booking and p = 0 and bk = undefined,
        THEN conjunct2, THEN conjunct1]
    by simp
  then obtain bk' where s: "BookingForm_save (\<lambda>s. True) env0 modest_form True = Inr bk'"
    by blast
  have "total_price bk' = 15000"
    using s t
      total_price_fixed [where valid_email = "\<lambda>s. True" and e = env0 and form = modest_form
        and commit = True and b = pending_booking and p = 0 and bk = bk', THEN conjunct1]
    by simp
  with s have x: "\<exists>bk'. BookingForm_save (\<lambda>s. True) env0 modest_form True = Inr bk' \<and>
         total_price bk' = 15000"
    by blast
  have c: "total_price (snd (confirm_booking env0 pending_booking)) = 150000"
    using total_price_fixed [where valid_email = "\<lambda>s. True" and e = env0
        and form = modest_form and commit = True and b = pending_booking and p = 0
        and bk = undefined]
    by (simp add: pending_booking_def confirmed_booking_def)
  have d: "total_price (snd (cancel_booking env0 confirmed_booking)) = 150000"
    using total_price_fixed [where valid_email = "\<lambda>s. True" and e = env0
        and form = modest_form and commit = True and b = confirmed_booking and p = 0
        and bk = undefined]
    by (simp add: confirmed_booking_def)
  from v f x c d show ?thesis by blast
qed

text \<open>
  C10. A booking form whose \<open>number_of_seats\<close> is greater than 10 is rejected with the
  error of the maximum-value validator, whatever the travel option's \<open>available_seats\<close>;
  the field is accepted exactly when \<open>1 \<le> number_of_seats \<le> 10\<close> and, with a travel
  option, \<open>number_of_seats \<le> available_seats\<close>.
\<close>

theorem seats_over_ten_rejected:
  "(form_number_of_seats form > 10 \<longrightarrow>
      (\<exists>errors. number_of_seats_clean form = Inl errors \<and> MaxValue 10 \<in> set errors) \<and>
      \<not> BookingForm_is_valid valid_email form) \<and>
   (\<not> isl (number_of_seats_clean form) \<longleftrightarrow>
      1 \<le> form_number_of_seats form \<and> form_number_of_seats form \<le> 10 \<and>
      (case form_travel_option form of
         None \<Rightarrow> True
       | Some t \<Rightarrow> form_number_of_seats form \<le> available_seats t))"
  by (auto simp add: number_of_seats_clean_def number_of_seats_validators_def
      clean_number_of_seats_def BookingForm_is_valid_def Let_def split: option.splits)

theorem seats_over_ten_rejected_witness:
  "form_number_of_seats greedy_form > 10 \<and>
   (\<exists>t. form_travel_option greedy_form = Some t \<and> available_seats t > 10) \<and>
   number_of_seats_clean greedy_form = Inl [MaxValue 10] \<and>
   \<not> BookingForm_is_valid (\<lambda>s. True) greedy_form \<and>
   \<not> isl (number_of_seats_clean (greedy_form\<lparr>form_number_of_seats := 10\<rparr>))"
  using seats_over_ten_rejected [of greedy_form "\<lambda>s. True"]
        seats_over_ten_rejected [of "greedy_form\<lparr>form_number_of_seats := 10\<rparr>" "\<lambda>s. True"]
  by (simp add: greedy_form_def open_option_def number_of_seats_clean_def
      number_of_seats_validators_def)

end
